theory Spec2Isabelle
  imports Complex_Main
begin

section \<open>JavaScript numbers\<close>

text \<open>
  A JavaScript number is an IEEE-754 binary64 value. A finite number is modelled by the
  rational it denotes, and every arithmetic operation of the language returns the exact
  result rounded to the nearest binary64 value, ties to the even significand (\<open>fl\<close>).
  \<open>fl\<close> is the rounding of the normal range (53 significant bits): it is binary64 for
  \<open>2^-1022 \<le> |x| < 2^1024\<close> and for 0, and has neither subnormals nor the overflow to
  infinity. The theorems about the resilience score bound every score by 1000 in absolute
  value, which keeps all values of the computation far inside that range.
\<close>

function bit_length :: "int \<Rightarrow> nat" where
  "bit_length n = (if n \<le> 0 then 0 else Suc (bit_length (n div 2)))"
  by pat_completeness auto
termination
  by (relation "measure nat") auto

declare bit_length.simps [simp del]

definition pow2 :: "int \<Rightarrow> rat" where
  "pow2 k = (if 0 \<le> k then 2 ^ nat k else 1 / 2 ^ nat (- k))"

text \<open>\<open>ilog2 a\<close> is the exponent \<open>e\<close> with \<open>2^e \<le> a < 2^(e+1)\<close>, for \<open>a > 0\<close>.\<close>

definition ilog2 :: "rat \<Rightarrow> int" where
  "ilog2 a = (let (p, q) = quotient_of a;
                  k = int (bit_length p) - int (bit_length q)
              in if pow2 k \<le> a then k else k - 1)"

definition fl :: "rat \<Rightarrow> rat" where
  "fl x = (if x = 0 then 0 else
     let a = \<bar>x\<bar>;
         u = pow2 (ilog2 a - 52);
         q = a / u;
         f = \<lfloor>q\<rfloor>;
         r = q - of_int f;
         m = (if r < 1 / 2 then f else if 1 / 2 < r then f + 1
              else if even f then f else f + 1)
     in sgn x * of_int m * u)"




definition js_mul :: "rat \<Rightarrow> rat \<Rightarrow> rat" where
  "js_mul a b = fl (a * b)"

definition js_div :: "rat \<Rightarrow> rat \<Rightarrow> rat" where
  "js_div a b = fl (a / b)"



text \<open>\<open>Math.round\<close>: the nearest integer, a tie going towards plus infinity.\<close>

definition Math_round :: "rat \<Rightarrow> int" where
  "Math_round x = \<lfloor>x + 1 / 2\<rfloor>"

section \<open>WellnessScorer (src/project/src/lib/ai-services.ts, MoodAnalysisService)\<close>

subsection \<open>calculateResilienceScore\<close>


definition num_or :: "rat option \<Rightarrow> rat \<Rightarrow> rat" where
  "num_or v d = (case v of None \<Rightarrow> d | Some n \<Rightarrow> if n = 0 then d else n)"




















subsection \<open>generateWellnessRecommendations\<close>

text \<open>\<open>recommendations.push(x)\<close> appends \<open>x\<close> at the end of the array.\<close>

definition push :: "'a list \<Rightarrow> 'a \<Rightarrow> 'a list" where
  "push xs x = xs @ [x]"

definition generateWellnessRecommendations :: "rat \<Rightarrow> rat \<Rightarrow> rat \<Rightarrow> string list" where
  "generateWellnessRecommendations moodScore stressLevel energyLevel =
     (let recommendations = [];
          recommendations =
            (if moodScore < 4
             then push (push recommendations ''Consider talking to a counselor or trusted friend'')
                    ''Try engaging in activities you enjoy''
             else recommendations);
          recommendations =
            (if stressLevel > 7
             then push (push (push recommendations ''Practice deep breathing or meditation'')
                    ''Take regular breaks from work/study'')
                    ''Consider time management techniques''
             else recommendations);
          recommendations =
            (if energyLevel < 4
             then push (push (push recommendations ''Ensure you're getting adequate sleep'')
                    ''Try light exercise or a short walk'')
                    ''Check your nutrition and hydration''
             else recommendations);
          recommendations =
            (if length recommendations = 0
             then push (push recommendations ''Keep up the great work on your wellness!'')
                    ''Continue your current healthy habits''
             else recommendations)
      in recommendations)"

text \<open>The four message sets the specification names.\<close>

definition low_mood_messages :: "string list" where
  "low_mood_messages =
     [''Consider talking to a counselor or trusted friend'',
      ''Try engaging in activities you enjoy'']"

definition stress_messages :: "string list" where
  "stress_messages =
     [''Practice deep breathing or meditation'',
      ''Take regular breaks from work/study'',
      ''Consider time management techniques'']"

definition low_energy_messages :: "string list" where
  "low_energy_messages =
     [''Ensure you're getting adequate sleep'',
      ''Try light exercise or a short walk'',
      ''Check your nutrition and hydration'']"

definition positive_messages :: "string list" where
  "positive_messages =
     [''Keep up the great work on your wellness!'',
      ''Continue your current healthy habits'']"

section \<open>JavaScript values\<close>

text \<open>
  The values a parsed JSON document is made of, and \<open>undefined\<close>. An object is an
  association list read with \<open>map_of\<close>. A number is finite, infinite or NaN.
\<close>

datatype jsnum = Fin rat | PosInf | NegInf | NaN

datatype js_value =
    JUndefined
  | JNull
  | JBool bool
  | JNum jsnum
  | JStr string
  | JArr "js_value list"
  | JObj "(string \<times> js_value) list"

datatype js_error =
    Error string
  | TypeError
  | SyntaxError
  | ApiError nat js_value

text \<open>Truthiness, as \<open>||\<close>, \<open>!\<close> and \<open>?:\<close> test it.\<close>

fun truthy :: "js_value \<Rightarrow> bool" where
  "truthy JUndefined = False"
| "truthy JNull = False"
| "truthy (JBool b) = b"
| "truthy (JNum n) = (n \<noteq> Fin 0 \<and> n \<noteq> NaN)"
| "truthy (JStr s) = (s \<noteq> [])"
| "truthy (JArr xs) = True"
| "truthy (JObj kvs) = True"

definition js_or :: "js_value \<Rightarrow> js_value \<Rightarrow> js_value" where
  "js_or a b = (if truthy a then a else b)"

fun nullish :: "js_value \<Rightarrow> bool" where
  "nullish JUndefined = True"
| "nullish JNull = True"
| "nullish v = False"

text \<open>
  Reading a named property (the names the code reads are \<open>choices\<close>, \<open>message\<close>,
  \<open>content\<close>, \<open>error\<close>, \<open>score\<close> and \<open>reasons\<close>): a TypeError on \<open>undefined\<close> and
  \<open>null\<close>, the stored value on an object that has the key, \<open>undefined\<close> otherwise.
\<close>

fun get_prop :: "js_value \<Rightarrow> string \<Rightarrow> js_error + js_value" where
  "get_prop JUndefined k = Inl TypeError"
| "get_prop JNull k = Inl TypeError"
| "get_prop (JObj kvs) k = Inr (case map_of kvs k of None \<Rightarrow> JUndefined | Some v \<Rightarrow> v)"
| "get_prop v k = Inr JUndefined"

text \<open>Reading index 0: the first element of an array, the first character of a string.\<close>

fun get_index0 :: "js_value \<Rightarrow> js_error + js_value" where
  "get_index0 JUndefined = Inl TypeError"
| "get_index0 JNull = Inl TypeError"
| "get_index0 (JArr xs) = Inr (case xs of [] \<Rightarrow> JUndefined | x # rest \<Rightarrow> x)"
| "get_index0 (JStr s) = Inr (case s of [] \<Rightarrow> JUndefined | c # rest \<Rightarrow> JStr [c])"
| "get_index0 (JObj kvs) = Inr (case map_of kvs ''0'' of None \<Rightarrow> JUndefined | Some v \<Rightarrow> v)"
| "get_index0 v = Inr JUndefined"

text \<open>Exceptions are values: \<open>Inl\<close> is a throw, and \<open>try_catch\<close> is \<open>try { } catch { }\<close>.\<close>

definition bind_err :: "'e + 'a \<Rightarrow> ('a \<Rightarrow> 'e + 'b) \<Rightarrow> 'e + 'b" where
  "bind_err m f = (case m of Inl e \<Rightarrow> Inl e | Inr v \<Rightarrow> f v)"

definition try_catch :: "'e + 'a \<Rightarrow> ('e \<Rightarrow> 'e + 'a) \<Rightarrow> 'e + 'a" where
  "try_catch body handler = (case body of Inl e \<Rightarrow> handler e | Inr v \<Rightarrow> Inr v)"

text \<open>
  \<open>ToNumber\<close> on a number, \<open>undefined\<close>, \<open>null\<close> and a boolean is fixed; on a string, an
  array or an object it is the language's conversion, a parameter here (\<open>None\<close> when the
  conversion throws).
\<close>

fun to_number :: "(js_value \<Rightarrow> jsnum option) \<Rightarrow> js_value \<Rightarrow> js_error + jsnum" where
  "to_number conv (JNum n) = Inr n"
| "to_number conv JUndefined = Inr NaN"
| "to_number conv JNull = Inr (Fin 0)"
| "to_number conv (JBool b) = Inr (Fin (if b then 1 else 0))"
| "to_number conv v = (case conv v of None \<Rightarrow> Inl TypeError | Some n \<Rightarrow> Inr n)"

fun num_le :: "jsnum \<Rightarrow> jsnum \<Rightarrow> bool" where
  "num_le NaN b = False"
| "num_le a NaN = False"
| "num_le NegInf b = True"
| "num_le a PosInf = True"
| "num_le (Fin x) (Fin y) = (x \<le> y)"
| "num_le a b = False"

text \<open>\<open>Math.min\<close> and \<open>Math.max\<close> of two numbers: NaN when either is NaN.\<close>

definition Math_min :: "jsnum \<Rightarrow> jsnum \<Rightarrow> jsnum" where
  "Math_min a b = (if a = NaN \<or> b = NaN then NaN else if num_le a b then a else b)"

definition Math_max :: "jsnum \<Rightarrow> jsnum \<Rightarrow> jsnum" where
  "Math_max a b = (if a = NaN \<or> b = NaN then NaN else if num_le a b then b else a)"

section \<open>JobMatchAdvisor (src/project/src/lib/ai-services.ts, OpenAIService)\<close>

text \<open>
  The external service is the outcome of \<open>fetch\<close>: the promise rejects, or it resolves
  to a response with its \<open>ok\<close> flag, its status and its body (\<open>None\<close> when the body is
  not JSON, so that \<open>response.json()\<close> rejects). The request itself (endpoint, model,
  messages) does not enter the result, so the service is represented by its answer.
\<close>

record http_response =
  ok :: bool
  status :: nat
  json_body :: "js_value option"

datatype fetch_outcome = Rejected js_error | Resolved http_response

text \<open>\<open>x?.message\<close>: \<open>undefined\<close> on a nullish \<open>x\<close>, else the property.\<close>

definition opt_prop :: "js_value \<Rightarrow> string \<Rightarrow> js_error + js_value" where
  "opt_prop v k = (if nullish v then Inr JUndefined else get_prop v k)"

definition makeRequest :: "string \<Rightarrow> fetch_outcome \<Rightarrow> js_error + js_value" where
  "makeRequest apiKey net =
     (if apiKey = [] then Inl (Error ''OpenAI API key not configured'')
      else
        (case net of
           Rejected e \<Rightarrow> Inl e
         | Resolved response \<Rightarrow>
             if \<not> ok response then
               (let errorData = (case json_body response of None \<Rightarrow> JObj [] | Some d \<Rightarrow> d) in
                bind_err (get_prop errorData ''error'') (\<lambda>err.
                bind_err (opt_prop err ''message'') (\<lambda>msg.
                  Inl (ApiError (status response) (js_or msg (JStr ''Unknown error''))))))
             else
               (case json_body response of None \<Rightarrow> Inl SyntaxError | Some d \<Rightarrow> Inr d)))"

text \<open>\<open>data.choices[0]?.message?.content\<close>.\<close>

definition message_content :: "js_value \<Rightarrow> js_error + js_value" where
  "message_content data =
     bind_err (get_prop data ''choices'') (\<lambda>choices.
     bind_err (get_index0 choices) (\<lambda>first.
       if nullish first then Inr JUndefined
       else bind_err (get_prop first ''message'') (\<lambda>message.
         if nullish message then Inr JUndefined
         else get_prop message ''content'')))"

record job_match =
  score :: jsnum
  reasons :: "js_value list"

text \<open>
  \<open>JSON.parse\<close> is the language's, a parameter: \<open>None\<close> when it throws a SyntaxError.
  The body of the inner \<open>try\<close>:
\<close>

definition parse_match ::
  "(js_value \<Rightarrow> js_value option) \<Rightarrow> (js_value \<Rightarrow> jsnum option) \<Rightarrow> js_value \<Rightarrow> js_error + job_match" where
  "parse_match JSON_parse conv content =
     (case JSON_parse content of
        None \<Rightarrow> Inl SyntaxError
      | Some result \<Rightarrow>
          bind_err (get_prop result ''score'') (\<lambda>s.
          bind_err (to_number conv (js_or s (JNum (Fin 50)))) (\<lambda>n.
          bind_err (get_prop result ''reasons'') (\<lambda>rs.
            Inr \<lparr>score = Math_max (Fin 0) (Math_min (Fin 100) n),
                 reasons = (case rs of JArr xs \<Rightarrow> xs
                            | other \<Rightarrow> [JStr ''General skill alignment''])\<rparr>))))"

definition analyzeJobMatch ::
  "(js_value \<Rightarrow> js_value option) \<Rightarrow> (js_value \<Rightarrow> jsnum option) \<Rightarrow> string \<Rightarrow> fetch_outcome
     \<Rightarrow> js_error + job_match" where
  "analyzeJobMatch JSON_parse conv apiKey net =
     try_catch
       (bind_err (makeRequest apiKey net) (\<lambda>data.
        bind_err (message_content data) (\<lambda>c.
          let content = js_or c (JStr ''{}'') in
          try_catch (parse_match JSON_parse conv content)
            (\<lambda>e. Inr \<lparr>score = Fin 50, reasons = [JStr ''Unable to analyze match at this time'']\<rparr>))))
       (\<lambda>error. Inr \<lparr>score = Fin 50,
                       reasons = [JStr ''Job matching service temporarily unavailable'']\<rparr>)"

section \<open>Sentiment analysis (src/project/src/lib/ai-services.ts, analyzeMood)\<close>

text \<open>
  The text is a sequence of UTF-16 code units. \<open>trim\<close> removes the language's white
  space and line terminators from both ends.
\<close>

definition is_white_space :: "nat \<Rightarrow> bool" where
  "is_white_space c =
     (c \<in> set [9, 10, 11, 12, 13, 32, 160, 5760, 8192, 8193, 8194, 8195, 8196, 8197, 8198,
                8199, 8200, 8201, 8202, 8232, 8233, 8239, 8287, 12288, 65279])"

definition js_trim :: "nat list \<Rightarrow> nat list" where
  "js_trim s = rev (dropWhile is_white_space (rev (dropWhile is_white_space s)))"

record hf_request =
  hf_url :: string
  hf_bearer :: string
  hf_inputs :: "nat list"

text \<open>
  The reply of the sentiment service, typed as its interface documents it: a list whose
  first element is a list of label/score pairs (\<open>Labelled\<close>). A body that is not JSON
  makes \<open>response.json()\<close> reject; any other JSON value fails the shape test or raises
  inside the \<open>try\<close>; both end in the neutral default.
\<close>

record sentiment_item =
  label :: "string option"
  item_score :: "rat option"

datatype hf_body = NotJson | OtherShape | Labelled "sentiment_item list"

record hf_response =
  hf_ok :: bool
  hf_status :: nat
  hf_json :: hf_body

datatype hf_outcome = HfRejected | HfResolved hf_response

record mood =
  sentiment :: string
  confidence :: rat

definition modelUrl :: string where
  "modelUrl = ''https://api-inference.huggingface.co/models/cardiffnlp/twitter-roberta-base-sentiment-latest''"

definition str_or :: "string option \<Rightarrow> string \<Rightarrow> string" where
  "str_or v d = (case v of None \<Rightarrow> d | Some s \<Rightarrow> if s = [] then d else s)"

text \<open>\<open>xs.reduce(f)\<close> without an initial value: a TypeError on the empty array.\<close>

fun reduce1 :: "('a \<Rightarrow> 'a \<Rightarrow> 'a) \<Rightarrow> 'a list \<Rightarrow> 'a option" where
  "reduce1 f [] = None"
| "reduce1 f (x # xs) = Some (foldl f x xs)"

text \<open>\<open>s.replace(pat, rep)\<close> with a string pattern replaces the first occurrence.\<close>

fun replace_first :: "string \<Rightarrow> string \<Rightarrow> string \<Rightarrow> string" where
  "replace_first pat rep [] = (if pat = [] then rep else [])"
| "replace_first pat rep (c # cs) =
     (if take (length pat) (c # cs) = pat then rep @ drop (length pat) (c # cs)
      else c # replace_first pat rep cs)"

text \<open>
  \<open>String.prototype.toLowerCase\<close> is the language's, a parameter of the model; the
  service is the function \<open>fetch\<close> from the request to its outcome.
\<close>

definition analyzeMood ::
  "(string \<Rightarrow> string) \<Rightarrow> string \<Rightarrow> nat list \<Rightarrow> (hf_request \<Rightarrow> hf_outcome)
     \<Rightarrow> mood \<times> hf_request list" where
  "analyzeMood toLowerCase apiKey text fetch =
     (if apiKey = [] then (\<lparr>sentiment = ''neutral'', confidence = 1 / 2\<rparr>, [])
      else if text = [] \<or> length (js_trim text) = 0
      then (\<lparr>sentiment = ''neutral'', confidence = 1 / 2\<rparr>, [])
      else
        let request = \<lparr>hf_url = modelUrl, hf_bearer = apiKey, hf_inputs = js_trim text\<rparr> in
        ((case fetch request of
            HfRejected \<Rightarrow> \<lparr>sentiment = ''neutral'', confidence = 1 / 2\<rparr>
          | HfResolved response \<Rightarrow>
              if \<not> hf_ok response then \<lparr>sentiment = ''neutral'', confidence = 1 / 2\<rparr>
              else
                (case hf_json response of
                   NotJson \<Rightarrow> \<lparr>sentiment = ''neutral'', confidence = 1 / 2\<rparr>
                 | OtherShape \<Rightarrow> \<lparr>sentiment = ''neutral'', confidence = 1 / 2\<rparr>
                 | Labelled items \<Rightarrow>
                     (case reduce1 (\<lambda>prev curr.
                              if num_or (item_score prev) 0 > num_or (item_score curr) 0
                              then prev else curr) items of
                        None \<Rightarrow> \<lparr>sentiment = ''neutral'', confidence = 1 / 2\<rparr>
                      | Some result \<Rightarrow>
                          \<lparr>sentiment = replace_first ''label_'' [] (toLowerCase (str_or (label result) ''neutral'')),
                           confidence = js_div (of_int (Math_round (js_mul (num_or (item_score result) (1 / 2)) 100))) 100\<rparr>))),
         [request]))"

section \<open>ProfileStore (src/src/lib/supabase.ts, dbHelpers)\<close>

datatype role = Student | Company | Admin

text \<open>A \<open>Partial<Profile>\<close>: every field may be absent.\<close>

record Profile =
  id' :: "string option"
  email :: "string option"
  full_name :: "string option"
  role :: "role option"
  phone :: "string option"
  avatar_url :: "string option"
  created_at :: "string option"
  updated_at :: "string option"

text \<open>The \<open>{ data, error }\<close> pair every operation returns; \<open>None\<close> is \<open>null\<close>.\<close>

record 'a reply =
  data :: "'a option"
  error :: "js_error option"

text \<open>
  What the operations read from outside: the identifier \<open>crypto.randomUUID()\<close> returns,
  the clock (\<open>now k\<close> is the k-th \<open>new Date().toISOString()\<close> of the call), and in live
  mode the answer of the remote query (\<open>Inl\<close> when the awaited call throws).
\<close>

record store_env =
  randomUUID :: string
  now :: "nat \<Rightarrow> string"
  remote :: "js_error + Profile reply"

text \<open>The live branch: \<open>if (error) throw error\<close>, and the \<open>catch\<close> returns the error.\<close>

definition remote_reply :: "js_error + Profile reply \<Rightarrow> Profile reply" where
  "remote_reply r =
     (case r of
        Inl e \<Rightarrow> \<lparr>data = None, error = Some e\<rparr>
      | Inr q \<Rightarrow> (case error q of
                    Some e \<Rightarrow> \<lparr>data = None, error = Some e\<rparr>
                  | None \<Rightarrow> \<lparr>data = data q, error = None\<rparr>))"

text \<open>The store is \<open>mockStorage.profiles\<close>, a map from id to profile.\<close>

definition createProfile ::
  "bool \<Rightarrow> store_env \<Rightarrow> Profile \<Rightarrow> (string \<rightharpoonup> Profile) \<Rightarrow> Profile reply \<times> (string \<rightharpoonup> Profile)" where
  "createProfile isDevelopment env userData profiles =
     (if isDevelopment then
        let key = str_or (id' userData) (randomUUID env);
            profile = userData\<lparr>id' := Some key,
                               created_at := Some (now env 0),
                               updated_at := Some (now env 1)\<rparr>
        in (\<lparr>data = Some profile, error = None\<rparr>, profiles(key \<mapsto> profile))
      else (remote_reply (remote env), profiles))"

definition getProfile ::
  "bool \<Rightarrow> store_env \<Rightarrow> string \<Rightarrow> (string \<rightharpoonup> Profile) \<Rightarrow> Profile reply" where
  "getProfile isDevelopment env userId profiles =
     (if isDevelopment then
        (case profiles userId of
           Some profile \<Rightarrow> \<lparr>data = Some profile, error = None\<rparr>
         | None \<Rightarrow> \<lparr>data = None, error = Some (Error ''Profile not found'')\<rparr>)
      else remote_reply (remote env))"

text \<open>
  The \<open>updates\<close> of \<open>updateProfile\<close>: a key is absent, or present with a value that may be
  \<open>undefined\<close> (\<open>None\<close>). In \<open>{ ...existing, ...updates }\<close> every key present in \<open>updates\<close>
  replaces the old value, also by \<open>undefined\<close>.
\<close>

datatype 'a field = Absent | Present "'a option"

record ProfilePatch =
  patch_id :: "string field"
  patch_email :: "string field"
  patch_full_name :: "string field"
  patch_role :: "role field"
  patch_phone :: "string field"
  patch_avatar_url :: "string field"
  patch_created_at :: "string field"
  patch_updated_at :: "string field"

definition assign :: "'a option \<Rightarrow> 'a field \<Rightarrow> 'a option" where
  "assign old new = (case new of Absent \<Rightarrow> old | Present v \<Rightarrow> v)"

definition spread :: "Profile \<Rightarrow> ProfilePatch \<Rightarrow> Profile" where
  "spread existing updates =
     \<lparr>id' = assign (id' existing) (patch_id updates),
      email = assign (email existing) (patch_email updates),
      full_name = assign (full_name existing) (patch_full_name updates),
      role = assign (role existing) (patch_role updates),
      phone = assign (phone existing) (patch_phone updates),
      avatar_url = assign (avatar_url existing) (patch_avatar_url updates),
      created_at = assign (created_at existing) (patch_created_at updates),
      updated_at = assign (updated_at existing) (patch_updated_at updates)\<rparr>"

definition updateProfile ::
  "bool \<Rightarrow> store_env \<Rightarrow> string \<Rightarrow> ProfilePatch \<Rightarrow> (string \<rightharpoonup> Profile)
     \<Rightarrow> Profile reply \<times> (string \<rightharpoonup> Profile)" where
  "updateProfile isDevelopment env userId updates profiles =
     (if isDevelopment then
        (case profiles userId of
           None \<Rightarrow> (\<lparr>data = None, error = Some (Error ''Profile not found'')\<rparr>, profiles)
         | Some existing \<Rightarrow>
             let updated = (spread existing updates)\<lparr>updated_at := Some (now env 0)\<rparr>
             in (\<lparr>data = Some updated, error = None\<rparr>, profiles(userId \<mapsto> updated)))
      else (remote_reply (remote env), profiles))"

section \<open>AuthGateway (src/project/src/lib/auth.ts and src/src/lib/auth.ts, authService)\<close>

record SignUpData =
  sd_full_name :: string
  sd_role :: role
  college_name :: "string option"
  company_name :: "string option"

record mock_user =
  user_id :: string
  user_email :: string
  user_created_at :: string
  user_updated_at :: string
  meta_full_name :: string
  meta_role :: role

text \<open>The base profile, in the mock store and as the row inserted in live mode.\<close>

record profile_row =
  row_id :: string
  row_email :: string
  row_full_name :: string
  row_role :: role
  row_created_at :: string
  row_updated_at :: string

record user_entry =
  entry_user :: mock_user
  entry_password :: string
  entry_profile :: profile_row

record student_row =
  st_user_id :: string
  st_college_name :: string
  st_degree :: string
  st_graduation_year :: int
  st_cgpa :: int
  st_skills :: "string list"
  st_certifications :: "string list"
  st_languages :: "string list"
  st_experience_level :: string
  st_preferred_locations :: "string list"
  st_expected_salary_min :: int
  st_expected_salary_max :: int
  st_job_preferences :: "(string \<times> string) list"
  st_created_at :: string
  st_updated_at :: string

record company_row =
  co_user_id :: string
  co_company_name :: string
  co_company_description :: string
  co_industry :: string
  co_company_size :: string
  co_headquarters_location :: string
  co_verification_status :: string
  co_created_at :: string
  co_updated_at :: string

datatype log_entry =
    Log string
  | LogStudent string student_row
  | LogCompany string company_row
  | LogError string js_error

text \<open>\<open>mockStorage\<close> of src/src/lib/auth.ts.\<close>

record mock_storage =
  users :: "string \<rightharpoonup> user_entry"
  profiles :: "string \<rightharpoonup> profile_row"
  currentUser :: "mock_user option"

record auth_user =
  au_id :: string
  au_email :: string

record auth_data =
  ad_user :: "auth_user option"
  ad_session :: "string option"

record auth_reply =
  authData :: auth_data
  authError :: "js_error option"

text \<open>The calls the module sends to the identity provider and to the remote store.\<close>

datatype remote_call =
    AuthSignUp string string string role
  | AuthSignIn string string
  | AuthSignOut
  | AuthGetUser
  | InsertProfile profile_row
  | InsertStudent student_row
  | InsertCompany company_row
  | UpdateProfile string

text \<open>
  What sign-up reads from outside: the generated identifier, the clock, the current
  year, the provider's answer to \<open>auth.signUp\<close> and the store's answer to an insert into
  a table (\<open>Inl\<close> when the awaited call throws, otherwise the \<open>error\<close> field of the answer).
\<close>

record auth_env =
  uuid :: string
  clock :: "nat \<Rightarrow> string"
  year :: int
  auth_signUp :: "js_error + auth_reply"
  insert_into :: "string \<Rightarrow> js_error + js_error option"

text \<open>The effects of one call: the remote calls sent and the lines logged, in order.\<close>

record run =
  calls :: "remote_call list"
  console :: "log_entry list"

definition studentData :: "string \<Rightarrow> string \<Rightarrow> int \<Rightarrow> string \<Rightarrow> string \<Rightarrow> student_row" where
  "studentData uid college y t1 t2 =
     \<lparr>st_user_id = uid, st_college_name = college, st_degree = [], st_graduation_year = y,
      st_cgpa = 0, st_skills = [], st_certifications = [], st_languages = [],
      st_experience_level = ''entry'', st_preferred_locations = [],
      st_expected_salary_min = 0, st_expected_salary_max = 0, st_job_preferences = [],
      st_created_at = t1, st_updated_at = t2\<rparr>"

definition companyData :: "string \<Rightarrow> string \<Rightarrow> string \<Rightarrow> string \<Rightarrow> company_row" where
  "companyData uid name t1 t2 =
     \<lparr>co_user_id = uid, co_company_name = name, co_company_description = [],
      co_industry = [], co_company_size = ''startup'', co_headquarters_location = [],
      co_verification_status = ''pending'', co_created_at = t1, co_updated_at = t2\<rparr>"

text \<open>\<open>userData.college_name\<close> as a condition: present and not the empty string.\<close>

definition given :: "string option \<Rightarrow> bool" where
  "given v = (case v of None \<Rightarrow> False | Some s \<Rightarrow> s \<noteq> [])"

subsection \<open>Live sign-up (src/project/src/lib/auth.ts)\<close>

text \<open>
  One insert: the call is sent; a thrown error is handed back (\<open>Some\<close>) for the outer
  \<open>catch\<close>; a reported error is logged under the given label and execution goes on.
\<close>

definition insert_row ::
  "auth_env \<Rightarrow> string \<Rightarrow> remote_call \<Rightarrow> string \<Rightarrow> run \<Rightarrow> js_error option \<times> run" where
  "insert_row env table call lbl r =
     (let r1 = r\<lparr>calls := calls r @ [call]\<rparr> in
      case insert_into env table of
        Inl e \<Rightarrow> (Some e, r1)
      | Inr None \<Rightarrow> (None, r1)
      | Inr (Some err) \<Rightarrow> (None, r1\<lparr>console := console r1 @ [LogError lbl err]\<rparr>))"

definition caught :: "js_error \<Rightarrow> run \<Rightarrow> auth_data reply \<times> run" where
  "caught e r =
     (\<lparr>data = None, error = Some e\<rparr>, r\<lparr>console := console r @ [LogError ''Signup error:'' e]\<rparr>)"

definition project_signUp ::
  "auth_env \<Rightarrow> string \<Rightarrow> string \<Rightarrow> SignUpData \<Rightarrow> auth_data reply \<times> run" where
  "project_signUp env email' password userData =
     (let r0 = \<lparr>calls = [AuthSignUp email' password (sd_full_name userData) (sd_role userData)],
                console = []\<rparr> in
      case auth_signUp env of
        Inl e \<Rightarrow> caught e r0
      | Inr answer \<Rightarrow>
          (case authError answer of
             Some authErr \<Rightarrow>
               (\<lparr>data = None, error = Some authErr\<rparr>,
                r0\<lparr>console := console r0 @ [LogError ''Auth signup error:'' authErr]\<rparr>)
           | None \<Rightarrow>
               (case ad_user (authData answer) of
                  None \<Rightarrow> (\<lparr>data = None, error = Some (Error ''User creation failed'')\<rparr>, r0)
                | Some user \<Rightarrow>
                    let profileData =
                          \<lparr>row_id = au_id user, row_email = au_email user,
                           row_full_name = sd_full_name userData, row_role = sd_role userData,
                           row_created_at = clock env 0, row_updated_at = clock env 1\<rparr>
                    in
                    (case insert_row env ''profiles'' (InsertProfile profileData)
                            ''Profile creation error:'' r0 of
                       (Some e, r1) \<Rightarrow> caught e r1
                     | (None, r1) \<Rightarrow>
                         (case (if sd_role userData = Student \<and> given (college_name userData)
                                then insert_row env ''student_profiles''
                                       (InsertStudent (studentData (au_id user)
                                          (the (college_name userData)) (year env)
                                          (clock env 2) (clock env 3)))
                                       ''Student profile creation error:'' r1
                                else (None, r1)) of
                            (Some e, r2) \<Rightarrow> caught e r2
                          | (None, r2) \<Rightarrow>
                              (case (if sd_role userData = Company \<and> given (company_name userData)
                                     then insert_row env ''company_profiles''
                                            (InsertCompany (companyData (au_id user)
                                               (the (company_name userData))
                                               (clock env 2) (clock env 3)))
                                            ''Company profile creation error:'' r2
                                     else (None, r2)) of
                                 (Some e, r3) \<Rightarrow> caught e r3
                               | (None, r3) \<Rightarrow>
                                   (\<lparr>data = Some (authData answer), error = None\<rparr>, r3)))))))"

subsection \<open>Sign-up with the development store (src/src/lib/auth.ts)\<close>

definition createMockUser ::
  "auth_env \<Rightarrow> string \<Rightarrow> SignUpData \<Rightarrow> mock_storage \<Rightarrow> (mock_user \<times> profile_row) \<times> mock_storage" where
  "createMockUser env email' userData mockStorage =
     (let userId = uuid env;
          user = \<lparr>user_id = userId, user_email = email',
                  user_created_at = clock env 0, user_updated_at = clock env 1,
                  meta_full_name = sd_full_name userData, meta_role = sd_role userData\<rparr>;
          profile = \<lparr>row_id = userId, row_email = email',
                     row_full_name = sd_full_name userData, row_role = sd_role userData,
                     row_created_at = clock env 2, row_updated_at = clock env 3\<rparr>;
          mockStorage = mockStorage\<lparr>users := (users mockStorage)
                          (email' \<mapsto> \<lparr>entry_user = user, entry_password = [], entry_profile = profile\<rparr>)\<rparr>;
          mockStorage = mockStorage\<lparr>profiles := (profiles mockStorage)(userId \<mapsto> profile)\<rparr>
      in ((user, profile), mockStorage))"

datatype signup_data = MockSession mock_user | LiveSession auth_data

definition signUp ::
  "bool \<Rightarrow> auth_env \<Rightarrow> string \<Rightarrow> string \<Rightarrow> SignUpData \<Rightarrow> mock_storage
     \<Rightarrow> signup_data reply \<times> mock_storage \<times> run" where
  "signUp isDevMode env email' password userData mockStorage =
     (if isDevMode then
        let r0 = \<lparr>calls = [], console = [Log ''Development mode: Creating mock user'']\<rparr> in
        if users mockStorage email' \<noteq> None
        then (\<lparr>data = None, error = Some (Error ''User already registered'')\<rparr>, mockStorage, r0)
        else
          let ((user, profile), mockStorage) = createMockUser env email' userData mockStorage;
              mockStorage = mockStorage\<lparr>currentUser := Some user\<rparr>;
              r1 = (if sd_role userData = Student \<and> given (college_name userData)
                    then r0\<lparr>console := console r0 @
                           [LogStudent ''Student profile created:''
                              (studentData (user_id user) (the (college_name userData)) (year env)
                                 (clock env 4) (clock env 5))]\<rparr>
                    else r0);
              r2 = (if sd_role userData = Company \<and> given (company_name userData)
                    then r1\<lparr>console := console r1 @
                           [LogCompany ''Company profile created:''
                              (companyData (user_id user) (the (company_name userData))
                                 (clock env 4) (clock env 5))]\<rparr>
                    else r1)
          in (\<lparr>data = Some (MockSession user), error = None\<rparr>, mockStorage, r2)
      else
        (case project_signUp env email' password userData of
           (answer, r) \<Rightarrow>
             (\<lparr>data = map_option LiveSession (data answer), error = error answer\<rparr>, mockStorage, r)))"

text \<open>The line logged for a reported insert error, none when the insert succeeded.\<close>

definition logged :: "string \<Rightarrow> js_error option \<Rightarrow> log_entry list" where
  "logged lbl err = (case err of None \<Rightarrow> [] | Some e \<Rightarrow> [LogError lbl e])"

section \<open>Example inputs\<close>





text \<open>
  A chat completion carrying the message content \<open>c\<close>, and a stand-in for \<open>JSON.parse\<close>
  that knows two documents and rejects everything else.
\<close>

definition completion :: "js_value \<Rightarrow> js_value" where
  "completion c = JObj [(''choices'', JArr [JObj [(''message'', JObj [(''content'', c)])]])]"

definition zero_score_content :: string where
  \<open>zero_score_content = ''{"score": 0, "reasons": ["No matching skills"]}''\<close>

definition sample_parse :: "js_value \<Rightarrow> js_value option" where
  "sample_parse v =
     (if v = JStr ''{}'' then Some (JObj [])
      else if v = JStr zero_score_content
      then Some (JObj [(''score'', JNum (Fin 0)), (''reasons'', JArr [JStr ''No matching skills''])])
      else None)"


definition zero_score_reply :: fetch_outcome where
  "zero_score_reply =
     Resolved \<lparr>ok = True, status = 200, json_body = Some (completion (JStr zero_score_content))\<rparr>"

text \<open>A development store holding one profile, and inputs for it.\<close>

definition stored_profile :: Profile where
  "stored_profile =
     \<lparr>id' = Some ''u1'', email = Some ''ada@example.org'', full_name = Some ''Ada'',
      role = Some Student, phone = None, avatar_url = None,
      created_at = Some ''2025-01-01T00:00:00.000Z'',
      updated_at = Some ''2025-01-01T00:00:00.000Z''\<rparr>"

definition sample_store :: "string \<rightharpoonup> Profile" where
  "sample_store = [''u1'' \<mapsto> stored_profile]"

definition sample_store_env :: store_env where
  "sample_store_env =
     \<lparr>randomUUID = ''7d3b1c2e-0a4f-4e6b-9c1d-5f2a8b7e6d90'',
      now = (\<lambda>k. ''2025-06-13T21:03:33.000Z''),
      remote = Inl (Error ''not configured'')\<rparr>"

definition duplicate_input :: Profile where
  "duplicate_input =
     \<lparr>id' = Some ''u1'', email = Some ''eve@example.org'', full_name = Some ''Eve'',
      role = Some Company, phone = None, avatar_url = None,
      created_at = None, updated_at = None\<rparr>"

definition phone_patch :: ProfilePatch where
  "phone_patch =
     \<lparr>patch_id = Absent, patch_email = Absent, patch_full_name = Absent, patch_role = Absent,
      patch_phone = Present (Some ''555-0199''), patch_avatar_url = Present None,
      patch_created_at = Absent, patch_updated_at = Absent\<rparr>"

definition phone_update :: Profile where
  "phone_update =
     \<lparr>id' = None, email = None, full_name = None, role = None, phone = Some ''555-0199'',
      avatar_url = None, created_at = None, updated_at = None\<rparr>"

text \<open>A development identity store with one registered user, and a sign-up for it.\<close>

definition ada_user :: mock_user where
  "ada_user =
     \<lparr>user_id = ''u1'', user_email = ''ada@example.org'',
      user_created_at = ''2025-01-01T00:00:00.000Z'',
      user_updated_at = ''2025-01-01T00:00:00.000Z'',
      meta_full_name = ''Ada'', meta_role = Student\<rparr>"

definition ada_row :: profile_row where
  "ada_row =
     \<lparr>row_id = ''u1'', row_email = ''ada@example.org'', row_full_name = ''Ada'',
      row_role = Student, row_created_at = ''2025-01-01T00:00:00.000Z'',
      row_updated_at = ''2025-01-01T00:00:00.000Z''\<rparr>"

definition ada_entry :: user_entry where
  "ada_entry = \<lparr>entry_user = ada_user, entry_password = [], entry_profile = ada_row\<rparr>"

definition sample_storage :: mock_storage where
  "sample_storage =
     \<lparr>users = [''ada@example.org'' \<mapsto> ada_entry], profiles = [''u1'' \<mapsto> ada_row],
      currentUser = None\<rparr>"

definition student_signup :: SignUpData where
  "student_signup =
     \<lparr>sd_full_name = ''Ada L.'', sd_role = Student, college_name = Some ''Analytical College'',
      company_name = None\<rparr>"

definition bob_signup :: SignUpData where
  "bob_signup =
     \<lparr>sd_full_name = ''Bob'', sd_role = Student, college_name = Some ''Analytical College'',
      company_name = None\<rparr>"

text \<open>
  A live environment in which the identity is created and the inserts into \<open>profiles\<close>
  and \<open>student_profiles\<close> are both answered with an error.
\<close>

definition bob_identity :: auth_data where
  "bob_identity =
     \<lparr>ad_user = Some \<lparr>au_id = ''u9'', au_email = ''bob@example.org''\<rparr>,
      ad_session = Some ''session-1''\<rparr>"

definition failing_inserts :: auth_env where
  "failing_inserts =
     \<lparr>uuid = ''7d3b1c2e-0a4f-4e6b-9c1d-5f2a8b7e6d90'',
      clock = (\<lambda>k. ''2025-06-13T21:03:33.000Z''),
      year = 2025,
      auth_signUp = Inr \<lparr>authData = bob_identity, authError = None\<rparr>,
      insert_into = (\<lambda>table.
        if table = ''profiles'' then Inr (Some (Error ''permission denied for table profiles''))
        else if table = ''student_profiles'' then Inr (Some (Error ''violates foreign key constraint''))
        else Inr None)\<rparr>"

section \<open>Theorems: WellnessScorer\<close>

subsection \<open>The rounding to binary64\<close>



lemma pow2_powi: "pow2 k = 2 powi k"
  by (simp add: pow2_def power_int_def inverse_eq_divide power_one_over)





lemma pow2_nat: "pow2 (int n) = 2 ^ n"
  by (simp add: pow2_powi)











subsection \<open>The error of the weighted score\<close>












subsection \<open>Rounding near a fraction with a small denominator\<close>



subsection \<open>Sums and means over the window\<close>















subsection \<open>The code on a window\<close>




subsection \<open>The examples\<close>

















subsection \<open>Recommendations\<close>

lemma generateWellnessRecommendations_concat:
  "generateWellnessRecommendations m s e =
     (let matched = (if m < 4 then low_mood_messages else []) @
                    (if s > 7 then stress_messages else []) @
                    (if e < 4 then low_energy_messages else [])
      in if matched = [] then positive_messages else matched)"
  by (simp add: generateWellnessRecommendations_def push_def low_mood_messages_def
      stress_messages_def low_energy_messages_def positive_messages_def)

text \<open>
  C2. The three rules are evaluated independently and the messages of every matching
  rule are concatenated in rule order: mood below 4 gives the two supportive-action
  messages, stress above 7 the three stress-management messages, energy below 4 the
  three energy-management messages; when no rule matches the result is the two
  positive-reinforcement messages. So (3, 2, 3) gives the low-mood set followed by the
  low-energy set, and (8, 8, 8) gives the stress-management set alone.
\<close>

theorem generateWellnessRecommendations_rules:
  "generateWellnessRecommendations m s e =
     (if 4 \<le> m \<and> s \<le> 7 \<and> 4 \<le> e then positive_messages
      else (if m < 4 then low_mood_messages else []) @
           (if s > 7 then stress_messages else []) @
           (if e < 4 then low_energy_messages else [])) \<and>
   length low_mood_messages = 2 \<and> length stress_messages = 3 \<and>
   length low_energy_messages = 3 \<and> length positive_messages = 2 \<and>
   generateWellnessRecommendations 3 2 3 = low_mood_messages @ low_energy_messages \<and>
   generateWellnessRecommendations 8 8 8 = stress_messages"
proof -
  have rules: "generateWellnessRecommendations m s e =
     (if 4 \<le> m \<and> s \<le> 7 \<and> 4 \<le> e then positive_messages
      else (if m < 4 then low_mood_messages else []) @
           (if s > 7 then stress_messages else []) @
           (if e < 4 then low_energy_messages else []))" for m s e
    by (simp add: generateWellnessRecommendations_concat Let_def low_mood_messages_def
        stress_messages_def low_energy_messages_def not_le)
  have sizes: "length low_mood_messages = 2" "length stress_messages = 3"
    "length low_energy_messages = 3" "length positive_messages = 2"
    by (simp_all add: low_mood_messages_def stress_messages_def low_energy_messages_def
        positive_messages_def)
  have ex1: "generateWellnessRecommendations 3 2 3 = low_mood_messages @ low_energy_messages"
    by (simp add: rules)
  have ex2: "generateWellnessRecommendations 8 8 8 = stress_messages"
    by (simp add: rules)
  show ?thesis
    using rules sizes ex1 ex2 by simp
qed

section \<open>Theorems: JobMatchAdvisor\<close>


lemma analyzeJobMatch_no_content:
  "makeRequest apiKey net = Inr d \<Longrightarrow> message_content d = Inl e \<Longrightarrow>
   analyzeJobMatch JSON_parse conv apiKey net =
     Inr \<lparr>score = Fin 50, reasons = [JStr ''Job matching service temporarily unavailable'']\<rparr>"
  by (simp add: analyzeJobMatch_def try_catch_def bind_err_def)






text \<open>
  When the parsed content is an object with a numeric score \<open>s\<close>, the returned score is
  \<open>s\<close> clamped to 0..100, except that a score of 0 (falsy for \<open>result.score || 50\<close>) is
  replaced by 50; the reasons are the parsed array, or the one-element default.
\<close>

lemma analyzeJobMatch_numeric_score:
  assumes "makeRequest apiKey net = Inr d" and "message_content d = Inr c" and "truthy c"
    and "JSON_parse c = Some (JObj kvs)" and "map_of kvs ''score'' = Some (JNum s)"
  shows "analyzeJobMatch JSON_parse conv apiKey net =
     Inr \<lparr>score = (if s = Fin 0 \<or> s = NaN then Fin 50
                   else Math_max (Fin 0) (Math_min (Fin 100) s)),
          reasons = (case map_of kvs ''reasons'' of Some (JArr xs) \<Rightarrow> xs
                     | other \<Rightarrow> [JStr ''General skill alignment''])\<rparr>"
  using assms
  by (auto simp: analyzeJobMatch_def try_catch_def bind_err_def js_or_def parse_match_def
      Math_max_def Math_min_def split: option.splits js_value.splits)

text \<open>
  C4. The claim asks for the score \<open>max(0, min(100, s))\<close> for every numeric \<open>s\<close>. For the
  completion \<open>{"score": 0, "reasons": ["No matching skills"]}\<close> the code returns 50,
  not 0.
\<close>

theorem analyzeJobMatch_zero_score:
  "analyzeJobMatch sample_parse (\<lambda>v. None) ''sk-live'' zero_score_reply =
     Inr \<lparr>score = Fin 50, reasons = [JStr ''No matching skills'']\<rparr>"
  by (simp add: analyzeJobMatch_def try_catch_def bind_err_def makeRequest_def message_content_def
      completion_def js_or_def parse_match_def sample_parse_def zero_score_content_def
      zero_score_reply_def Math_max_def Math_min_def)

section \<open>Theorems: sentiment analysis\<close>

lemma dropWhile_all: "list_all P xs \<Longrightarrow> dropWhile P xs = []"
  by (induction xs) simp_all

lemma js_trim_blank: "list_all is_white_space text \<Longrightarrow> js_trim text = []"
  by (simp add: js_trim_def dropWhile_all)

text \<open>
  C10. For a text that is empty or made of white space only, analyzeMood returns the
  neutral sentiment with confidence 0.5 and sends no request, whatever the credential.
\<close>

theorem analyzeMood_blank_text:
  assumes "list_all is_white_space text"
  shows "analyzeMood toLowerCase apiKey text fetch =
           (\<lparr>sentiment = ''neutral'', confidence = 1 / 2\<rparr>, [])"
  using js_trim_blank[OF assms] by (simp add: analyzeMood_def)

theorem analyzeMood_blank_text_witness:
  "list_all is_white_space [32, 9, 10, 160] \<and>
   analyzeMood (\<lambda>s. s) ''hf_key'' [32, 9, 10, 160] (\<lambda>request. HfRejected) =
     (\<lparr>sentiment = ''neutral'', confidence = 1 / 2\<rparr>, [])"
proof -
  have blank: "list_all is_white_space [32, 9, 10, 160]"
    by (simp add: is_white_space_def)
  show ?thesis
    using blank
      analyzeMood_blank_text[OF blank, of "\<lambda>s. s" "''hf_key''" "\<lambda>request. HfRejected"]
    by simp
qed

text \<open>A text with other characters is trimmed and sent.\<close>

lemma analyzeMood_sends_trimmed:
  "analyzeMood toLowerCase ''hf_key'' [32, 104, 105, 32] (\<lambda>request. HfRejected) =
     (\<lparr>sentiment = ''neutral'', confidence = 1 / 2\<rparr>,
      [\<lparr>hf_url = modelUrl, hf_bearer = ''hf_key'', hf_inputs = [104, 105]\<rparr>])"
  by (simp add: analyzeMood_def js_trim_def is_white_space_def)

section \<open>Theorems: ProfileStore\<close>

text \<open>
  C5. In the development store, create gives the record the supplied id, or the generated
  one when none is supplied, stamps created_at and updated_at, and stores it; a get with
  that id then returns the same record, the input with id and timestamps set, and no
  error.
\<close>

theorem createProfile_then_getProfile:
  "(let key = (case id' userData of None \<Rightarrow> randomUUID env
               | Some s \<Rightarrow> if s = [] then randomUUID env else s);
        created = userData\<lparr>id' := Some key, created_at := Some (now env 0),
                           updated_at := Some (now env 1)\<rparr>
    in createProfile True env userData store =
         (\<lparr>data = Some created, error = None\<rparr>, store(key \<mapsto> created)) \<and>
       getProfile True env2 key (snd (createProfile True env userData store)) =
         \<lparr>data = Some created, error = None\<rparr>)"
proof -
  define key where "key = (case id' userData of None \<Rightarrow> randomUUID env
                           | Some s \<Rightarrow> if s = [] then randomUUID env else s)"
  define created where "created = userData\<lparr>id' := Some key, created_at := Some (now env 0),
                                             updated_at := Some (now env 1)\<rparr>"
  have k: "str_or (id' userData) (randomUUID env) = key"
    by (simp add: str_or_def key_def)
  have c: "createProfile True env userData store =
             (\<lparr>data = Some created, error = None\<rparr>, store(key \<mapsto> created))"
    by (simp add: createProfile_def k created_def Let_def)
  have "(store(key \<mapsto> created)) key = Some created"
    by simp
  then have g: "getProfile True env2 key (snd (createProfile True env userData store)) =
                  \<lparr>data = Some created, error = None\<rparr>"
    by (simp add: c getProfile_def)
  show ?thesis
    using c g unfolding key_def created_def Let_def by blast
qed

text \<open>An input without an id gets the generated one.\<close>

lemma createProfile_generates_id:
  "fst (createProfile True sample_store_env phone_update sample_store) =
     \<lparr>data = Some (phone_update\<lparr>id' := Some ''7d3b1c2e-0a4f-4e6b-9c1d-5f2a8b7e6d90'',
                                  created_at := Some ''2025-06-13T21:03:33.000Z'',
                                  updated_at := Some ''2025-06-13T21:03:33.000Z''\<rparr>),
      error = None\<rparr>"
  by (simp add: createProfile_def str_or_def sample_store_env_def phone_update_def Let_def)

text \<open>
  C6. For an id the development store does not hold, update returns the error
  "Profile not found" with null data and leaves the store as it was, and get returns the
  same error with null data.
\<close>

theorem missing_profile_not_found:
  assumes "store userId = None"
  shows "updateProfile True env userId updates store =
           (\<lparr>data = None, error = Some (Error ''Profile not found'')\<rparr>, store) \<and>
         getProfile True env userId store =
           \<lparr>data = None, error = Some (Error ''Profile not found'')\<rparr>"
  using assms by (simp add: updateProfile_def getProfile_def)

theorem missing_profile_not_found_witness:
  "sample_store ''u2'' = None \<and>
   updateProfile True sample_store_env ''u2'' phone_patch sample_store =
     (\<lparr>data = None, error = Some (Error ''Profile not found'')\<rparr>, sample_store) \<and>
   getProfile True sample_store_env ''u2'' sample_store =
     \<lparr>data = None, error = Some (Error ''Profile not found'')\<rparr>"
proof -
  have absent: "sample_store ''u2'' = None"
    by (simp add: sample_store_def)
  show ?thesis
    using absent
      missing_profile_not_found[where store = sample_store and userId = "''u2''"
        and env = sample_store_env and updates = phone_patch]
    by simp
qed

text \<open>
  C9. Creating a profile whose id is already in the development store is not refused:
  createProfile returns the new profile with no error and the stored record is replaced.
  The claim asks for an AlreadyExists error and the old record kept.
\<close>

theorem createProfile_duplicate_id:
  "sample_store ''u1'' = Some stored_profile \<and>
   id' duplicate_input = Some ''u1'' \<and>
   fst (createProfile True sample_store_env duplicate_input sample_store) =
     \<lparr>data = Some (duplicate_input\<lparr>created_at := Some ''2025-06-13T21:03:33.000Z'',
                                     updated_at := Some ''2025-06-13T21:03:33.000Z''\<rparr>),
      error = None\<rparr> \<and>
   snd (createProfile True sample_store_env duplicate_input sample_store) ''u1'' =
     Some (duplicate_input\<lparr>created_at := Some ''2025-06-13T21:03:33.000Z'',
                            updated_at := Some ''2025-06-13T21:03:33.000Z''\<rparr>) \<and>
   duplicate_input\<lparr>created_at := Some ''2025-06-13T21:03:33.000Z'',
                   updated_at := Some ''2025-06-13T21:03:33.000Z''\<rparr> \<noteq> stored_profile"
  by (simp add: createProfile_def str_or_def sample_store_def sample_store_env_def
      duplicate_input_def stored_profile_def Let_def)

text \<open>
  The same happens for every input whose non-empty id is in the store: the development
  branch is an unconditional \<open>set\<close>.
\<close>

lemma createProfile_existing_id_overwrites:
  assumes "id' userData = Some k" and "k \<noteq> []" and "store k = Some old"
  shows "createProfile True env userData store =
           (\<lparr>data = Some (userData\<lparr>created_at := Some (now env 0),
                                     updated_at := Some (now env 1)\<rparr>),
             error = None\<rparr>,
            store(k \<mapsto> userData\<lparr>created_at := Some (now env 0),
                                  updated_at := Some (now env 1)\<rparr>))"
proof -
  have same: "userData\<lparr>id' := Some k\<rparr> = userData"
    using assms(1) by (cases userData) simp
  have "str_or (id' userData) (randomUUID env) = k"
    using assms(1,2) by (simp add: str_or_def)
  then show ?thesis
    using same by (simp add: createProfile_def Let_def)
qed

text \<open>
  In live mode the same call is an insert into \<open>profiles\<close>; an error the store answers
  with (such as a duplicate key) is what createProfile returns, with null data.
\<close>

lemma createProfile_live_error:
  assumes "remote env = Inr \<lparr>data = None, error = Some e\<rparr>"
  shows "createProfile False env userData store = (\<lparr>data = None, error = Some e\<rparr>, store)"
  using assms by (simp add: createProfile_def remote_reply_def)

section \<open>Theorems: AuthGateway\<close>

text \<open>
  C7. With the development store, signing up with an email that is already registered
  returns the error "User already registered" with null data; the store (users, profiles,
  current user) is unchanged, no remote call is sent and nothing but the mode notice is
  logged.
\<close>

theorem signUp_existing_email:
  assumes "users mockStorage email' = Some entry"
  shows "signUp True env email' password userData mockStorage =
           (\<lparr>data = None, error = Some (Error ''User already registered'')\<rparr>, mockStorage,
            \<lparr>calls = [], console = [Log ''Development mode: Creating mock user'']\<rparr>)"
  using assms by (simp add: signUp_def)

theorem signUp_existing_email_witness:
  "users sample_storage ''ada@example.org'' = Some ada_entry \<and>
   signUp True failing_inserts ''ada@example.org'' ''secret'' student_signup sample_storage =
     (\<lparr>data = None, error = Some (Error ''User already registered'')\<rparr>, sample_storage,
      \<lparr>calls = [], console = [Log ''Development mode: Creating mock user'']\<rparr>)"
proof -
  have u: "users sample_storage ''ada@example.org'' = Some ada_entry"
    by (simp add: sample_storage_def)
  show ?thesis
    using u
      signUp_existing_email[where mockStorage = sample_storage and email' = "''ada@example.org''"
        and entry = ada_entry and env = failing_inserts and password = "''secret''"
        and userData = student_signup]
    by simp
qed

text \<open>
  C8. In live mode, when the identity is created and the store answers each insert (with
  an error or without), sign-up returns the provider's data and no error. The calls sent
  are the sign-up and the inserts, nothing that removes the identity, and every reported
  insert error appears as one logged line.
\<close>

theorem project_signUp_partial_failure:
  assumes "auth_signUp env = Inr answer" and "authError answer = None"
    and "ad_user (authData answer) = Some user"
    and "insert_into env ''profiles'' = Inr perr"
    and "insert_into env ''student_profiles'' = Inr serr"
    and "insert_into env ''company_profiles'' = Inr cerr"
  shows "project_signUp env email' password userData =
     (\<lparr>data = Some (authData answer), error = None\<rparr>,
      \<lparr>calls =
         [AuthSignUp email' password (sd_full_name userData) (sd_role userData),
          InsertProfile \<lparr>row_id = au_id user, row_email = au_email user,
             row_full_name = sd_full_name userData, row_role = sd_role userData,
             row_created_at = clock env 0, row_updated_at = clock env 1\<rparr>] @
         (if sd_role userData = Student \<and> given (college_name userData)
          then [InsertStudent (studentData (au_id user) (the (college_name userData)) (year env)
                  (clock env 2) (clock env 3))]
          else []) @
         (if sd_role userData = Company \<and> given (company_name userData)
          then [InsertCompany (companyData (au_id user) (the (company_name userData))
                  (clock env 2) (clock env 3))]
          else []),
       console =
         logged ''Profile creation error:'' perr @
         (if sd_role userData = Student \<and> given (college_name userData)
          then logged ''Student profile creation error:'' serr else []) @
         (if sd_role userData = Company \<and> given (company_name userData)
          then logged ''Company profile creation error:'' cerr else [])\<rparr>)"
  using assms
  by (cases perr; cases serr; cases cerr)
     (simp_all add: project_signUp_def insert_row_def logged_def Let_def)

theorem project_signUp_partial_failure_witness:
  "auth_signUp failing_inserts = Inr \<lparr>authData = bob_identity, authError = None\<rparr> \<and>
   ad_user bob_identity = Some \<lparr>au_id = ''u9'', au_email = ''bob@example.org''\<rparr> \<and>
   insert_into failing_inserts ''profiles'' =
     Inr (Some (Error ''permission denied for table profiles'')) \<and>
   insert_into failing_inserts ''student_profiles'' =
     Inr (Some (Error ''violates foreign key constraint'')) \<and>
   insert_into failing_inserts ''company_profiles'' = Inr None \<and>
   project_signUp failing_inserts ''bob@example.org'' ''secret'' bob_signup =
     (\<lparr>data = Some bob_identity, error = None\<rparr>,
      \<lparr>calls =
         [AuthSignUp ''bob@example.org'' ''secret'' ''Bob'' Student,
          InsertProfile \<lparr>row_id = ''u9'', row_email = ''bob@example.org'', row_full_name = ''Bob'',
             row_role = Student, row_created_at = ''2025-06-13T21:03:33.000Z'',
             row_updated_at = ''2025-06-13T21:03:33.000Z''\<rparr>,
          InsertStudent (studentData ''u9'' ''Analytical College'' 2025
             ''2025-06-13T21:03:33.000Z'' ''2025-06-13T21:03:33.000Z'')],
       console =
         [LogError ''Profile creation error:'' (Error ''permission denied for table profiles''),
          LogError ''Student profile creation error:'' (Error ''violates foreign key constraint'')]\<rparr>)"
proof -
  have a: "auth_signUp failing_inserts = Inr \<lparr>authData = bob_identity, authError = None\<rparr>"
    by (simp add: failing_inserts_def)
  have u: "ad_user bob_identity = Some \<lparr>au_id = ''u9'', au_email = ''bob@example.org''\<rparr>"
    by (simp add: bob_identity_def)
  have p: "insert_into failing_inserts ''profiles'' =
             Inr (Some (Error ''permission denied for table profiles''))"
    by (simp add: failing_inserts_def)
  have s: "insert_into failing_inserts ''student_profiles'' =
             Inr (Some (Error ''violates foreign key constraint''))"
    by (simp add: failing_inserts_def)
  have c: "insert_into failing_inserts ''company_profiles'' = Inr None"
    by (simp add: failing_inserts_def)
  have e: "clock failing_inserts k = ''2025-06-13T21:03:33.000Z''" "year failing_inserts = 2025" for k
    by (simp_all add: failing_inserts_def)
  have "project_signUp failing_inserts ''bob@example.org'' ''secret'' bob_signup =
     (\<lparr>data = Some bob_identity, error = None\<rparr>,
      \<lparr>calls =
         [AuthSignUp ''bob@example.org'' ''secret'' ''Bob'' Student,
          InsertProfile \<lparr>row_id = ''u9'', row_email = ''bob@example.org'', row_full_name = ''Bob'',
             row_role = Student, row_created_at = ''2025-06-13T21:03:33.000Z'',
             row_updated_at = ''2025-06-13T21:03:33.000Z''\<rparr>,
          InsertStudent (studentData ''u9'' ''Analytical College'' 2025
             ''2025-06-13T21:03:33.000Z'' ''2025-06-13T21:03:33.000Z'')],
       console =
         [LogError ''Profile creation error:'' (Error ''permission denied for table profiles''),
          LogError ''Student profile creation error:'' (Error ''violates foreign key constraint'')]\<rparr>)"
    using project_signUp_partial_failure[where env = failing_inserts
        and answer = "\<lparr>authData = bob_identity, authError = None\<rparr>"
        and user = "\<lparr>au_id = ''u9'', au_email = ''bob@example.org''\<rparr>"
        and perr = "Some (Error ''permission denied for table profiles'')"
        and serr = "Some (Error ''violates foreign key constraint'')"
        and cerr = None and email' = "''bob@example.org''" and password = "''secret''"
        and userData = bob_signup, OF a _ _ p s c] u
    by (simp add: e bob_signup_def given_def logged_def)
  then show ?thesis
    using a u p s c by simp
qed

end
